theory Spec2Isabelle
  imports Main
begin

section \<open>The item record\<close>

text \<open>
  Both sample files declare the same interface \<^verbatim>\<open>Item\<close> with the fields
  \<^verbatim>\<open>name: string\<close>, \<^verbatim>\<open>sellIn: number\<close> and \<^verbatim>\<open>quality: number\<close>.
  The countdown and the quality are integers, as the data model of the engine has them.
  \<^verbatim>\<open>updateItemQuality\<close> receives the item by reference and assigns to its fields; here it
  takes the record and returns the record after the call.
\<close>

record Item =
  name :: string
  sellIn :: int
  quality :: int

section \<open>a-single-function-predicate-complexity.ts\<close>

text \<open>
  The three \<^verbatim>\<open>if\<close> statements of the single function, one definition each, in the order of
  the source. Each condition is read on the item as the statements before it left it.
\<close>

definition smelly_decrease :: "Item \<Rightarrow> Item" where
  "smelly_decrease item =
     (if (name item \<noteq> ''Aged Brie'' \<and> name item \<noteq> ''Backstage passes to a TAFKAL80ETC concert''
            \<and> quality item > 0 \<and> name item \<noteq> ''Sulfuras, Hand of Ragnaros'')
          \<or> (sellIn item < 0 \<and> name item \<noteq> ''Aged Brie''
            \<and> name item \<noteq> ''Backstage passes to a TAFKAL80ETC concert'' \<and> quality item > 0)
      then item\<lparr>quality := quality item - 1\<rparr>
      else item)"

definition smelly_increase :: "Item \<Rightarrow> Item" where
  "smelly_increase item =
     (if (name item = ''Aged Brie'' \<or> name item = ''Backstage passes to a TAFKAL80ETC concert'')
          \<and> quality item < 50
          \<and> (sellIn item > 0 \<or> name item = ''Backstage passes to a TAFKAL80ETC concert'')
      then item\<lparr>quality := quality item + 1\<rparr>
      else item)"

definition smelly_expired_pass :: "Item \<Rightarrow> Item" where
  "smelly_expired_pass item =
     (if name item = ''Backstage passes to a TAFKAL80ETC concert''
          \<and> sellIn item < 0
          \<and> quality item > 0
      then item\<lparr>quality := 0\<rparr>
      else item)"

definition updateItemQuality_smelly :: "Item \<Rightarrow> Item" where
  "updateItemQuality_smelly item =
     smelly_expired_pass (smelly_increase (smelly_decrease item))"

section \<open>refactored-predicates.ts\<close>

subsection \<open>Predicate functions\<close>

definition isAgedBrie :: "Item \<Rightarrow> bool" where
  "isAgedBrie item = (name item = ''Aged Brie'')"

definition isBackstagePass :: "Item \<Rightarrow> bool" where
  "isBackstagePass item = (name item = ''Backstage passes to a TAFKAL80ETC concert'')"

definition isSulfuras :: "Item \<Rightarrow> bool" where
  "isSulfuras item = (name item = ''Sulfuras, Hand of Ragnaros'')"

definition isSpecialItem :: "Item \<Rightarrow> bool" where
  "isSpecialItem item = (isAgedBrie item \<or> isBackstagePass item \<or> isSulfuras item)"

definition hasQualityToDecrease :: "Item \<Rightarrow> bool" where
  "hasQualityToDecrease item = (quality item > 0)"

definition hasQualityToIncrease :: "Item \<Rightarrow> bool" where
  "hasQualityToIncrease item = (quality item < 50)"

definition hasExpired :: "Item \<Rightarrow> bool" where
  "hasExpired item = (sellIn item < 0)"

subsection \<open>Business rule predicates\<close>

definition shouldDecreaseQuality :: "Item \<Rightarrow> bool" where
  "shouldDecreaseQuality item = (\<not> isSpecialItem item \<and> hasQualityToDecrease item)"

definition shouldIncreaseQuality :: "Item \<Rightarrow> bool" where
  "shouldIncreaseQuality item =
     ((isAgedBrie item \<or> isBackstagePass item) \<and> hasQualityToIncrease item)"

definition shouldIncreaseQualityMoreRapidly :: "Item \<Rightarrow> bool" where
  "shouldIncreaseQualityMoreRapidly item =
     (isBackstagePass item \<and> (hasExpired item = False) \<and> hasQualityToIncrease item)"

definition shouldLoseAllQualityAfterEvent :: "Item \<Rightarrow> bool" where
  "shouldLoseAllQualityAfterEvent item = (isBackstagePass item \<and> hasExpired item)"

subsection \<open>Orchestrator\<close>

text \<open>
  The four \<^verbatim>\<open>if\<close> statements of the orchestrator, one definition each. A predicate of a
  later statement is evaluated on the item the earlier statements have already written.
\<close>

definition applyDecrease :: "Item \<Rightarrow> Item" where
  "applyDecrease item =
     (if shouldDecreaseQuality item then item\<lparr>quality := quality item - 1\<rparr> else item)"

definition applyIncrease :: "Item \<Rightarrow> Item" where
  "applyIncrease item =
     (if shouldIncreaseQuality item then item\<lparr>quality := quality item + 1\<rparr> else item)"

definition applyIncreaseMoreRapidly :: "Item \<Rightarrow> Item" where
  "applyIncreaseMoreRapidly item =
     (if shouldIncreaseQualityMoreRapidly item then item\<lparr>quality := quality item + 1\<rparr>
      else item)"

definition applyLoseAllQuality :: "Item \<Rightarrow> Item" where
  "applyLoseAllQuality item =
     (if shouldLoseAllQualityAfterEvent item then item\<lparr>quality := 0\<rparr> else item)"

definition updateItemQuality_refactored :: "Item \<Rightarrow> Item" where
  "updateItemQuality_refactored item =
     applyLoseAllQuality (applyIncreaseMoreRapidly (applyIncrease (applyDecrease item)))"

section \<open>Unfolding rules\<close>

lemmas predicate_defs =
  isAgedBrie_def isBackstagePass_def isSulfuras_def isSpecialItem_def
  hasQualityToDecrease_def hasQualityToIncrease_def hasExpired_def

lemmas rule_defs =
  shouldDecreaseQuality_def shouldIncreaseQuality_def
  shouldIncreaseQualityMoreRapidly_def shouldLoseAllQualityAfterEvent_def

text \<open>
  The orchestrator with its rules unfolded down to the three name tests, which stay folded:
  the proofs below reason about the categories, not about the characters of the names.
\<close>

lemmas run_defs =
  updateItemQuality_refactored_def applyDecrease_def applyIncrease_def
  applyIncreaseMoreRapidly_def applyLoseAllQuality_def rule_defs
  isSpecialItem_def hasQualityToDecrease_def hasQualityToIncrease_def hasExpired_def

section \<open>Categories\<close>

lemma names_distinct:
  "''Aged Brie'' \<noteq> ''Backstage passes to a TAFKAL80ETC concert''"
  "''Aged Brie'' \<noteq> ''Sulfuras, Hand of Ragnaros''"
  "''Backstage passes to a TAFKAL80ETC concert'' \<noteq> ''Sulfuras, Hand of Ragnaros''"
  by simp_all

lemma brie_not_other: "isAgedBrie i \<Longrightarrow> \<not> isBackstagePass i \<and> \<not> isSulfuras i"
  using names_distinct by (simp add: isAgedBrie_def isBackstagePass_def isSulfuras_def)

lemma pass_not_other: "isBackstagePass i \<Longrightarrow> \<not> isAgedBrie i \<and> \<not> isSulfuras i"
  using names_distinct by (simp add: isAgedBrie_def isBackstagePass_def isSulfuras_def)

lemma sulfuras_not_other: "isSulfuras i \<Longrightarrow> \<not> isAgedBrie i \<and> \<not> isBackstagePass i"
  using names_distinct by (simp add: isAgedBrie_def isBackstagePass_def isSulfuras_def)

text \<open>Writing the quality changes no category and no expiry test.\<close>

lemma category_quality_update [simp]:
  "isAgedBrie (i\<lparr>quality := q\<rparr>) = isAgedBrie i"
  "isBackstagePass (i\<lparr>quality := q\<rparr>) = isBackstagePass i"
  "isSulfuras (i\<lparr>quality := q\<rparr>) = isSulfuras i"
  "isSpecialItem (i\<lparr>quality := q\<rparr>) = isSpecialItem i"
  "hasExpired (i\<lparr>quality := q\<rparr>) = hasExpired i"
  by (simp_all add: predicate_defs)

lemma range_quality_update [simp]:
  "hasQualityToDecrease (i\<lparr>quality := q\<rparr>) = (0 < q)"
  "hasQualityToIncrease (i\<lparr>quality := q\<rparr>) = (q < 50)"
  by (simp_all add: predicate_defs)

section \<open>The single function in terms of the categories\<close>

lemma smelly_decrease_folded:
  "smelly_decrease item =
     (if (\<not> isAgedBrie item \<and> \<not> isBackstagePass item \<and> quality item > 0 \<and> \<not> isSulfuras item)
          \<or> (sellIn item < 0 \<and> \<not> isAgedBrie item \<and> \<not> isBackstagePass item \<and> quality item > 0)
      then item\<lparr>quality := quality item - 1\<rparr> else item)"
  unfolding smelly_decrease_def isAgedBrie_def isBackstagePass_def isSulfuras_def by (rule refl)

lemma smelly_increase_folded:
  "smelly_increase item =
     (if (isAgedBrie item \<or> isBackstagePass item) \<and> quality item < 50
          \<and> (sellIn item > 0 \<or> isBackstagePass item)
      then item\<lparr>quality := quality item + 1\<rparr> else item)"
  unfolding smelly_increase_def isAgedBrie_def isBackstagePass_def by (rule refl)

lemma smelly_expired_pass_folded:
  "smelly_expired_pass item =
     (if isBackstagePass item \<and> sellIn item < 0 \<and> quality item > 0
      then item\<lparr>quality := 0\<rparr> else item)"
  unfolding smelly_expired_pass_def isBackstagePass_def by (rule refl)

lemmas smelly_run_defs =
  updateItemQuality_smelly_def smelly_decrease_folded smelly_increase_folded
  smelly_expired_pass_folded

section \<open>Frame of the single statements\<close>

lemma refactored_steps_frame:
  "name (applyDecrease i) = name i" "sellIn (applyDecrease i) = sellIn i"
  "name (applyIncrease i) = name i" "sellIn (applyIncrease i) = sellIn i"
  "name (applyIncreaseMoreRapidly i) = name i" "sellIn (applyIncreaseMoreRapidly i) = sellIn i"
  "name (applyLoseAllQuality i) = name i" "sellIn (applyLoseAllQuality i) = sellIn i"
  by (simp_all add: applyDecrease_def applyIncrease_def applyIncreaseMoreRapidly_def
      applyLoseAllQuality_def)

lemma smelly_steps_frame:
  "name (smelly_decrease i) = name i" "sellIn (smelly_decrease i) = sellIn i"
  "name (smelly_increase i) = name i" "sellIn (smelly_increase i) = sellIn i"
  "name (smelly_expired_pass i) = name i" "sellIn (smelly_expired_pass i) = sellIn i"
  by (simp_all add: smelly_decrease_folded smelly_increase_folded smelly_expired_pass_folded)

section \<open>Range of the quality\<close>

text \<open>
  Claim C1. An item whose quality lies in the closed range from 0 to 50 on entry has its
  quality in that range after one call of the refactored \<^verbatim>\<open>updateItemQuality\<close>: the
  decrease rule is guarded by \<open>quality > 0\<close>, both increase rules by \<open>quality < 50\<close>, and the
  collapse rule writes 0.
\<close>

theorem refactored_quality_in_range:
  assumes "0 \<le> quality i" and "quality i \<le> 50"
  shows "0 \<le> quality (updateItemQuality_refactored i)
       \<and> quality (updateItemQuality_refactored i) \<le> 50"
  using assms by (simp add: run_defs)

theorem refactored_quality_in_range_witness:
  "0 \<le> quality \<lparr>name = ''Aged Brie'', sellIn = 3, quality = 50\<rparr>
   \<and> quality \<lparr>name = ''Aged Brie'', sellIn = 3, quality = 50\<rparr> \<le> 50
   \<and> 0 \<le> quality (updateItemQuality_refactored
              \<lparr>name = ''Aged Brie'', sellIn = 3, quality = 50\<rparr>)
   \<and> quality (updateItemQuality_refactored
              \<lparr>name = ''Aged Brie'', sellIn = 3, quality = 50\<rparr>) \<le> 50"
  using refactored_quality_in_range [of "\<lparr>name = ''Aged Brie'', sellIn = 3, quality = 50\<rparr>"]
  by simp

text \<open>
  Claim C10. The lower bound alone is kept as well: an item that enters with a quality of at
  least 0, however large, leaves the refactored \<^verbatim>\<open>updateItemQuality\<close> with a quality of at
  least 0.
\<close>

theorem refactored_quality_nonnegative:
  assumes "0 \<le> quality i"
  shows "0 \<le> quality (updateItemQuality_refactored i)"
  using assms by (simp add: run_defs)

theorem refactored_quality_nonnegative_witness:
  "0 \<le> quality \<lparr>name = ''Elixir of the Mongoose'', sellIn = 4, quality = 80\<rparr>
   \<and> 0 \<le> quality (updateItemQuality_refactored
              \<lparr>name = ''Elixir of the Mongoose'', sellIn = 4, quality = 80\<rparr>)"
  using refactored_quality_nonnegative
    [of "\<lparr>name = ''Elixir of the Mongoose'', sellIn = 4, quality = 80\<rparr>"]
  by simp

section \<open>Backstage passes\<close>

text \<open>
  Claim C2. For a Backstage pass whose countdown is not negative (0 included), one call of the
  refactored \<^verbatim>\<open>updateItemQuality\<close> adds exactly 2 to a quality of at most 48, and takes a
  quality of 49 to exactly 50.
\<close>

theorem backstage_pass_pending_increase:
  assumes "isBackstagePass i" and "0 \<le> sellIn i"
  shows "(quality i \<le> 48 \<longrightarrow> quality (updateItemQuality_refactored i) = quality i + 2)
       \<and> (quality i = 49 \<longrightarrow> quality (updateItemQuality_refactored i) = 50)"
  using assms by (simp add: run_defs)

theorem backstage_pass_pending_increase_witness:
  "quality (updateItemQuality_refactored
     \<lparr>name = ''Backstage passes to a TAFKAL80ETC concert'', sellIn = 0, quality = 48\<rparr>) = 50
   \<and> quality (updateItemQuality_refactored
     \<lparr>name = ''Backstage passes to a TAFKAL80ETC concert'', sellIn = 0, quality = 49\<rparr>) = 50
   \<and> quality (updateItemQuality_refactored
     \<lparr>name = ''Backstage passes to a TAFKAL80ETC concert'', sellIn = 7, quality = 10\<rparr>) = 12"
  using
    backstage_pass_pending_increase
      [of "\<lparr>name = ''Backstage passes to a TAFKAL80ETC concert'', sellIn = 0, quality = 48\<rparr>"]
    backstage_pass_pending_increase
      [of "\<lparr>name = ''Backstage passes to a TAFKAL80ETC concert'', sellIn = 0, quality = 49\<rparr>"]
    backstage_pass_pending_increase
      [of "\<lparr>name = ''Backstage passes to a TAFKAL80ETC concert'', sellIn = 7, quality = 10\<rparr>"]
  by (simp add: isBackstagePass_def)

text \<open>
  Claim C3. For a Backstage pass whose countdown is negative and whose quality lies between 0
  and 50, one call of the refactored \<^verbatim>\<open>updateItemQuality\<close> leaves the quality at exactly 0,
  whatever it was before.
\<close>

theorem backstage_pass_expired_collapse:
  assumes "isBackstagePass i" and "sellIn i < 0" and "0 \<le> quality i" and "quality i \<le> 50"
  shows "quality (updateItemQuality_refactored i) = 0"
  using assms by (simp add: run_defs)

theorem backstage_pass_expired_collapse_witness:
  "quality (updateItemQuality_refactored
     \<lparr>name = ''Backstage passes to a TAFKAL80ETC concert'', sellIn = - 1, quality = 30\<rparr>) = 0"
  using backstage_pass_expired_collapse
      [of "\<lparr>name = ''Backstage passes to a TAFKAL80ETC concert'', sellIn = - 1, quality = 30\<rparr>"]
  by (simp add: isBackstagePass_def)

section \<open>Aged Brie\<close>

text \<open>
  Claim C4. For an item named Aged Brie, whatever its countdown: one call of the refactored
  \<^verbatim>\<open>updateItemQuality\<close> adds exactly 1 to a quality below 50 and leaves a quality of 50
  at 50.
\<close>

theorem aged_brie_increase:
  assumes "isAgedBrie i"
  shows "(quality i < 50 \<longrightarrow> quality (updateItemQuality_refactored i) = quality i + 1)
       \<and> (quality i = 50 \<longrightarrow> quality (updateItemQuality_refactored i) = 50)"
  using assms brie_not_other [of i] by (simp add: run_defs)

theorem aged_brie_increase_witness:
  "quality (updateItemQuality_refactored \<lparr>name = ''Aged Brie'', sellIn = 2, quality = 0\<rparr>) = 1
   \<and> quality (updateItemQuality_refactored \<lparr>name = ''Aged Brie'', sellIn = 0, quality = 49\<rparr>) = 50
   \<and> quality (updateItemQuality_refactored \<lparr>name = ''Aged Brie'', sellIn = - 4, quality = 50\<rparr>) = 50"
  using
    aged_brie_increase [of "\<lparr>name = ''Aged Brie'', sellIn = 2, quality = 0\<rparr>"]
    aged_brie_increase [of "\<lparr>name = ''Aged Brie'', sellIn = 0, quality = 49\<rparr>"]
    aged_brie_increase [of "\<lparr>name = ''Aged Brie'', sellIn = - 4, quality = 50\<rparr>"]
  by (simp add: isAgedBrie_def)

section \<open>Generic items\<close>

text \<open>
  Claim C5. For an item whose name is none of the three special names, whatever its countdown:
  one call of the refactored \<^verbatim>\<open>updateItemQuality\<close> takes exactly 1 from a positive quality
  and leaves a quality of 0 at 0.
\<close>

theorem generic_item_decrease:
  assumes "name i \<noteq> ''Aged Brie''"
    and "name i \<noteq> ''Backstage passes to a TAFKAL80ETC concert''"
    and "name i \<noteq> ''Sulfuras, Hand of Ragnaros''"
  shows "(0 < quality i \<longrightarrow> quality (updateItemQuality_refactored i) = quality i - 1)
       \<and> (quality i = 0 \<longrightarrow> quality (updateItemQuality_refactored i) = 0)"
proof -
  from assms have "\<not> isAgedBrie i" and "\<not> isBackstagePass i" and "\<not> isSulfuras i"
    by (simp_all only: isAgedBrie_def isBackstagePass_def isSulfuras_def not_False_eq_True)
  then show ?thesis by (simp add: run_defs)
qed

theorem generic_item_decrease_witness:
  "quality (updateItemQuality_refactored \<lparr>name = ''Normal Item'', sellIn = 5, quality = 0\<rparr>) = 0
   \<and> quality (updateItemQuality_refactored \<lparr>name = ''Normal Item'', sellIn = - 3, quality = 7\<rparr>) = 6"
  using
    generic_item_decrease [of "\<lparr>name = ''Normal Item'', sellIn = 5, quality = 0\<rparr>"]
    generic_item_decrease [of "\<lparr>name = ''Normal Item'', sellIn = - 3, quality = 7\<rparr>"]
  by simp

section \<open>Sulfuras\<close>

text \<open>
  In the refactored file Sulfuras is a special item and matches none of the four rules. In the
  single function the first disjunct of the decrease condition excludes Sulfuras, the second
  one (the one that starts with \<open>sellIn < 0\<close>) does not.
\<close>

lemma sulfuras_refactored_unchanged:
  "isSulfuras i \<Longrightarrow> updateItemQuality_refactored i = i"
  using sulfuras_not_other [of i] by (simp add: run_defs)

lemma sulfuras_smelly:
  "isSulfuras i \<Longrightarrow> updateItemQuality_smelly i =
     (if sellIn i < 0 \<and> 0 < quality i then i\<lparr>quality := quality i - 1\<rparr> else i)"
  using sulfuras_not_other [of i] by (simp add: smelly_run_defs)

text \<open>
  Claim C6. For an item named Sulfuras, Hand of Ragnaros, one call of \<^verbatim>\<open>updateItemQuality\<close>
  is to leave the quality unchanged in both files. The refactored function does
  (\<open>sulfuras_refactored_unchanged\<close>); the single function takes 1 from the quality of a Sulfuras
  whose countdown is negative and whose quality is positive. At the item with countdown -5 and
  quality 80 the single function returns 79 and the refactored one 80.
\<close>

theorem sulfuras_expired_smelly_decreases:
  "quality (updateItemQuality_smelly
     \<lparr>name = ''Sulfuras, Hand of Ragnaros'', sellIn = - 5, quality = 80\<rparr>) = 79
   \<and> quality (updateItemQuality_refactored
     \<lparr>name = ''Sulfuras, Hand of Ragnaros'', sellIn = - 5, quality = 80\<rparr>) = 80"
  by (simp add: sulfuras_smelly sulfuras_refactored_unchanged isSulfuras_def)

section \<open>The two files side by side\<close>

text \<open>
  Claim C7, as stated: the two functions give the same final quality on every item. They do
  not: on a Backstage pass with countdown 5 and quality 10 the single function gives 11 (its
  one increase statement) and the refactored function gives 12 (its increase rule and then its
  accelerated rule).
\<close>

theorem implementations_differ_counterexample:
  "quality (updateItemQuality_smelly
     \<lparr>name = ''Backstage passes to a TAFKAL80ETC concert'', sellIn = 5, quality = 10\<rparr>)
   \<noteq> quality (updateItemQuality_refactored
     \<lparr>name = ''Backstage passes to a TAFKAL80ETC concert'', sellIn = 5, quality = 10\<rparr>)"
  using pass_not_other
      [of "\<lparr>name = ''Backstage passes to a TAFKAL80ETC concert'', sellIn = 5, quality = 10\<rparr>"]
  by (simp add: run_defs smelly_run_defs isBackstagePass_def)

text \<open>
  Claim C7, amended. For an item whose quality lies between 0 and 50 on entry, leaving aside a
  Sulfuras whose countdown is negative, the two functions give the same final quality exactly
  on these items: every generic item; every Sulfuras; an Aged Brie with a positive countdown
  or a quality of 50; a Backstage pass with a negative countdown; a Backstage pass with a
  quality of at least 49. On the other items in that range they differ: an Aged Brie with
  countdown at most 0 and quality below 50 grows only in the refactored function, and a
  pending Backstage pass with quality at most 48 grows by 2 there and by 1 in the single
  function.
\<close>

theorem implementations_agree_iff:
  assumes "0 \<le> quality i" and "quality i \<le> 50"
    and "\<not> (isSulfuras i \<and> hasExpired i)"
  shows "(quality (updateItemQuality_smelly i) = quality (updateItemQuality_refactored i))
     \<longleftrightarrow> (\<not> isSpecialItem i \<or> isSulfuras i
          \<or> (isAgedBrie i \<and> (0 < sellIn i \<or> quality i = 50))
          \<or> (isBackstagePass i \<and> (hasExpired i \<or> 49 \<le> quality i)))"
proof -
  consider (brie) "isAgedBrie i" | (pass) "isBackstagePass i" | (sulfuras) "isSulfuras i"
    | (generic) "\<not> isSpecialItem i"
    by (auto simp add: isSpecialItem_def)
  then show ?thesis
  proof cases
    case brie
    then show ?thesis
      using assms(1,2) brie_not_other [of i] by (auto simp add: run_defs smelly_run_defs)
  next
    case pass
    then show ?thesis
      using assms(1,2) pass_not_other [of i] by (auto simp add: run_defs smelly_run_defs)
  next
    case sulfuras
    then show ?thesis
      using assms(3) sulfuras_not_other [of i] by (auto simp add: run_defs smelly_run_defs)
  next
    case generic
    then show ?thesis by (auto simp add: run_defs smelly_run_defs)
  qed
qed

theorem implementations_agree_iff_witness:
  "quality (updateItemQuality_smelly \<lparr>name = ''Normal Item'', sellIn = - 2, quality = 9\<rparr>)
     = quality (updateItemQuality_refactored \<lparr>name = ''Normal Item'', sellIn = - 2, quality = 9\<rparr>)
   \<and> quality (updateItemQuality_smelly \<lparr>name = ''Aged Brie'', sellIn = 2, quality = 0\<rparr>)
     = quality (updateItemQuality_refactored \<lparr>name = ''Aged Brie'', sellIn = 2, quality = 0\<rparr>)
   \<and> quality (updateItemQuality_smelly \<lparr>name = ''Aged Brie'', sellIn = 0, quality = 10\<rparr>)
     \<noteq> quality (updateItemQuality_refactored \<lparr>name = ''Aged Brie'', sellIn = 0, quality = 10\<rparr>)
   \<and> quality (updateItemQuality_smelly
       \<lparr>name = ''Backstage passes to a TAFKAL80ETC concert'', sellIn = - 1, quality = 30\<rparr>)
     = quality (updateItemQuality_refactored
       \<lparr>name = ''Backstage passes to a TAFKAL80ETC concert'', sellIn = - 1, quality = 30\<rparr>)
   \<and> quality (updateItemQuality_smelly
       \<lparr>name = ''Backstage passes to a TAFKAL80ETC concert'', sellIn = 0, quality = 49\<rparr>)
     = quality (updateItemQuality_refactored
       \<lparr>name = ''Backstage passes to a TAFKAL80ETC concert'', sellIn = 0, quality = 49\<rparr>)
   \<and> quality (updateItemQuality_smelly
       \<lparr>name = ''Sulfuras, Hand of Ragnaros'', sellIn = 3, quality = 40\<rparr>)
     = quality (updateItemQuality_refactored
       \<lparr>name = ''Sulfuras, Hand of Ragnaros'', sellIn = 3, quality = 40\<rparr>)"
  using
    implementations_agree_iff [of "\<lparr>name = ''Normal Item'', sellIn = - 2, quality = 9\<rparr>"]
    implementations_agree_iff [of "\<lparr>name = ''Aged Brie'', sellIn = 2, quality = 0\<rparr>"]
    implementations_agree_iff [of "\<lparr>name = ''Aged Brie'', sellIn = 0, quality = 10\<rparr>"]
    implementations_agree_iff
      [of "\<lparr>name = ''Backstage passes to a TAFKAL80ETC concert'', sellIn = - 1, quality = 30\<rparr>"]
    implementations_agree_iff
      [of "\<lparr>name = ''Backstage passes to a TAFKAL80ETC concert'', sellIn = 0, quality = 49\<rparr>"]
    implementations_agree_iff
      [of "\<lparr>name = ''Sulfuras, Hand of Ragnaros'', sellIn = 3, quality = 40\<rparr>"]
  by (simp add: predicate_defs)

section \<open>Frame\<close>

text \<open>
  Claim C8. One call of \<^verbatim>\<open>updateItemQuality\<close>, in the single function and in the refactored
  one, leaves the name and the countdown of the item as they were; the item after the call is
  the item before it with, at most, another quality.
\<close>

theorem update_writes_quality_only:
  "name (updateItemQuality_smelly i) = name i
   \<and> sellIn (updateItemQuality_smelly i) = sellIn i
   \<and> updateItemQuality_smelly i = i\<lparr>quality := quality (updateItemQuality_smelly i)\<rparr>
   \<and> name (updateItemQuality_refactored i) = name i
   \<and> sellIn (updateItemQuality_refactored i) = sellIn i
   \<and> updateItemQuality_refactored i = i\<lparr>quality := quality (updateItemQuality_refactored i)\<rparr>"
proof -
  have "name (updateItemQuality_smelly i) = name i"
    and "sellIn (updateItemQuality_smelly i) = sellIn i"
    by (simp_all add: updateItemQuality_smelly_def smelly_steps_frame)
  moreover have "name (updateItemQuality_refactored i) = name i"
    and "sellIn (updateItemQuality_refactored i) = sellIn i"
    by (simp_all add: updateItemQuality_refactored_def refactored_steps_frame)
  moreover have "updateItemQuality_smelly i = i\<lparr>quality := quality (updateItemQuality_smelly i)\<rparr>"
    by (simp add: smelly_run_defs)
  moreover have
    "updateItemQuality_refactored i = i\<lparr>quality := quality (updateItemQuality_refactored i)\<rparr>"
    by (simp add: run_defs)
  ultimately show ?thesis by simp
qed

theorem update_writes_quality_only_witness:
  "name (updateItemQuality_smelly
      \<lparr>name = ''Backstage passes to a TAFKAL80ETC concert'', sellIn = - 1, quality = 30\<rparr>)
     = ''Backstage passes to a TAFKAL80ETC concert''
   \<and> sellIn (updateItemQuality_smelly
      \<lparr>name = ''Backstage passes to a TAFKAL80ETC concert'', sellIn = - 1, quality = 30\<rparr>) = - 1
   \<and> name (updateItemQuality_refactored
      \<lparr>name = ''Backstage passes to a TAFKAL80ETC concert'', sellIn = - 1, quality = 30\<rparr>)
     = ''Backstage passes to a TAFKAL80ETC concert''
   \<and> sellIn (updateItemQuality_refactored
      \<lparr>name = ''Backstage passes to a TAFKAL80ETC concert'', sellIn = - 1, quality = 30\<rparr>) = - 1"
  using update_writes_quality_only
      [of "\<lparr>name = ''Backstage passes to a TAFKAL80ETC concert'', sellIn = - 1, quality = 30\<rparr>"]
  by simp

section \<open>The rules on an expired pass\<close>

text \<open>
  Claim C9, as stated: on a Backstage pass with a negative countdown neither the increase rule
  nor the accelerated rule fires. The increase rule does fire: its predicate tests the name and
  \<open>quality < 50\<close> and never the countdown. On the pass with countdown -1 and quality 30 the
  collapse predicate holds, the increase predicate holds on the item the decrease statement
  left, and the increase statement writes 31.
\<close>

theorem expired_pass_increase_fires_counterexample:
  "shouldLoseAllQualityAfterEvent
     \<lparr>name = ''Backstage passes to a TAFKAL80ETC concert'', sellIn = - 1, quality = 30\<rparr>
   \<and> shouldIncreaseQuality (applyDecrease
       \<lparr>name = ''Backstage passes to a TAFKAL80ETC concert'', sellIn = - 1, quality = 30\<rparr>)
   \<and> quality (applyIncrease (applyDecrease
       \<lparr>name = ''Backstage passes to a TAFKAL80ETC concert'', sellIn = - 1, quality = 30\<rparr>)) = 31"
  using pass_not_other
      [of "\<lparr>name = ''Backstage passes to a TAFKAL80ETC concert'', sellIn = - 1, quality = 30\<rparr>"]
  by (simp add: run_defs isBackstagePass_def)

text \<open>
  Claim C9, amended. On a Backstage pass with a negative countdown the accelerated rule does
  not fire, neither on the item as it enters nor on the item the first two statements leave;
  the increase rule fires exactly when the quality is below 50; the collapse rule fires, and
  since it is executed last the final quality is 0.
\<close>

theorem expired_pass_rules:
  assumes "isBackstagePass i" and "sellIn i < 0"
  shows "\<not> shouldIncreaseQualityMoreRapidly i
       \<and> \<not> shouldIncreaseQualityMoreRapidly (applyIncrease (applyDecrease i))
       \<and> (shouldIncreaseQuality (applyDecrease i) \<longleftrightarrow> quality i < 50)
       \<and> shouldLoseAllQualityAfterEvent i
       \<and> quality (updateItemQuality_refactored i) = 0"
  using assms by (simp add: run_defs)

theorem expired_pass_rules_witness:
  "\<not> shouldIncreaseQualityMoreRapidly
       \<lparr>name = ''Backstage passes to a TAFKAL80ETC concert'', sellIn = - 2, quality = 20\<rparr>
   \<and> shouldIncreaseQuality (applyDecrease
       \<lparr>name = ''Backstage passes to a TAFKAL80ETC concert'', sellIn = - 2, quality = 20\<rparr>)
   \<and> quality (updateItemQuality_refactored
       \<lparr>name = ''Backstage passes to a TAFKAL80ETC concert'', sellIn = - 2, quality = 20\<rparr>) = 0"
  using expired_pass_rules
      [of "\<lparr>name = ''Backstage passes to a TAFKAL80ETC concert'', sellIn = - 2, quality = 20\<rparr>"]
  by (simp add: isBackstagePass_def)

end
